theory Spec2Isabelle
  imports Main
begin

section \<open>JavaScript values used by the listing form\<close>

text \<open>
  The front end is a Svelte application. Its form fields hold JavaScript values: text
  inputs and selects deliver strings, \<^verbatim>\<open>type="number"\<close> inputs deliver a number or
  \<^verbatim>\<open>null\<close>, and the handlers store strings produced by \<^verbatim>\<open>toFixed\<close>.
  Strings are modelled as \<^typ>\<open>string\<close>, one \<^typ>\<open>char\<close> per code unit (code units
  above 255 are outside the model). Numbers are modelled exactly, as a decimal
  \<open>m \<times> 10\<^sup>e\<close>, together with \<^verbatim>\<open>NaN\<close> and the two infinities; binary rounding of
  IEEE doubles is not modelled, and \<^verbatim>\<open>-0\<close> is identified with \<^verbatim>\<open>0\<close>.
\<close>

datatype jsnum = NaN | PosInf | NegInf | Fin int int

datatype jsval = JUndefined | JNull | JStr string | JNum jsnum

text \<open>\<^verbatim>\<open>x <= 0\<close> and \<^verbatim>\<open>x > 0\<close> on numbers; every comparison with \<^verbatim>\<open>NaN\<close> is false.\<close>

fun le_zero :: "jsnum \<Rightarrow> bool" where
  "le_zero NaN = False"
| "le_zero PosInf = False"
| "le_zero NegInf = True"
| "le_zero (Fin m e) = (m \<le> 0)"

fun gt_zero :: "jsnum \<Rightarrow> bool" where
  "gt_zero NaN = False"
| "gt_zero PosInf = True"
| "gt_zero NegInf = False"
| "gt_zero (Fin m e) = (0 < m)"

text \<open>Whether a number is an integer: \<open>m \<times> 10\<^sup>e\<close> with \<open>e < 0\<close> is one when \<open>10\<^sup>-\<^sup>e\<close>
  divides \<open>m\<close>.\<close>

fun is_integer :: "jsnum \<Rightarrow> bool" where
  "is_integer NaN = False"
| "is_integer PosInf = False"
| "is_integer NegInf = False"
| "is_integer (Fin m e) = (if 0 \<le> e then True else m mod 10 ^ nat (- e) = 0)"

text \<open>Truthiness (\<^verbatim>\<open>ToBoolean\<close>): what \<^verbatim>\<open>!x\<close>, \<^verbatim>\<open>x ? a : b\<close> and \<^verbatim>\<open>x || y\<close> test.\<close>

fun truthy :: "jsval \<Rightarrow> bool" where
  "truthy JUndefined = False"
| "truthy JNull = False"
| "truthy (JStr s) = (s \<noteq> [])"
| "truthy (JNum NaN) = False"
| "truthy (JNum PosInf) = True"
| "truthy (JNum NegInf) = True"
| "truthy (JNum (Fin m e)) = (m \<noteq> 0)"

subsection \<open>Characters, white space and digits\<close>

definition is_ws :: "char \<Rightarrow> bool" where
  "is_ws c = ((of_char c :: int) \<in> {9, 10, 11, 12, 13, 32, 160})"

definition is_digit :: "char \<Rightarrow> bool" where
  "is_digit c = (48 \<le> (of_char c :: int) \<and> (of_char c :: int) \<le> 57)"

definition digit_val :: "char \<Rightarrow> int" where
  "digit_val c = of_char c - 48"

definition is_hex_digit :: "char \<Rightarrow> bool" where
  "is_hex_digit c = (is_digit c
     \<or> (65 \<le> (of_char c :: int) \<and> (of_char c :: int) \<le> 70)
     \<or> (97 \<le> (of_char c :: int) \<and> (of_char c :: int) \<le> 102))"

definition hex_val :: "char \<Rightarrow> int" where
  "hex_val c = (if is_digit c then of_char c - 48
                else if (of_char c :: int) \<le> 70 then of_char c - 55
                else of_char c - 87)"

definition digit_char :: "int \<Rightarrow> char" where
  "digit_char d = char_of (48 + d)"

text \<open>\<^verbatim>\<open>String.prototype.trim\<close>: strips white space from both ends.\<close>

definition trim_start :: "string \<Rightarrow> string" where
  "trim_start s = dropWhile is_ws s"

definition trim :: "string \<Rightarrow> string" where
  "trim s = rev (dropWhile is_ws (rev (dropWhile is_ws s)))"

text \<open>The value of a digit sequence, most significant digit first.\<close>

definition digits_val :: "int \<Rightarrow> (char \<Rightarrow> int) \<Rightarrow> string \<Rightarrow> int" where
  "digits_val b v ds = foldl (\<lambda>a c. b * a + v c) 0 ds"

text \<open>The decimal digits of a non-negative integer, most significant first; a template
  literal \<^verbatim>\<open>`${n}`\<close> prints an array length this way.\<close>

function digits_of :: "int \<Rightarrow> string" where
  "digits_of n =
     (if n < 10 then [digit_char n]
      else digits_of (n div 10) @ [digit_char (n mod 10)])"
  by pat_completeness auto
termination
  by (relation "measure nat") auto

declare digits_of.simps [simp del]

definition string_of_nat :: "nat \<Rightarrow> string" where
  "string_of_nat n = digits_of (int n)"

subsection \<open>parseInt and parseFloat on strings\<close>

text \<open>
  \<^verbatim>\<open>parseInt(s)\<close> with no radix: leading white space is skipped, a sign is read, a
  \<^verbatim>\<open>0x\<close> prefix selects radix 16, and the longest run of digits is the value. With no
  digit the result is \<^verbatim>\<open>NaN\<close>.
\<close>

definition parseInt_str :: "string \<Rightarrow> jsnum" where
  "parseInt_str s =
     (let t = trim_start s;
          neg = (t \<noteq> [] \<and> hd t = CHR ''-'');
          u = (if t \<noteq> [] \<and> (hd t = CHR ''+'' \<or> hd t = CHR ''-'') then tl t else t);
          hex = (case u of a # b # _ \<Rightarrow> a = CHR ''0'' \<and> (b = CHR ''x'' \<or> b = CHR ''X'') | _ \<Rightarrow> False);
          ds = (if hex then takeWhile is_hex_digit (drop 2 u) else takeWhile is_digit u);
          n = (if hex then digits_val 16 hex_val ds else digits_val 10 digit_val ds)
      in if ds = [] then NaN else Fin (if neg then - n else n) 0)"

text \<open>
  \<^verbatim>\<open>parseFloat(s)\<close>: leading white space is skipped and the longest prefix that is a
  \<^verbatim>\<open>StrDecimalLiteral\<close> is read: a sign, then \<^verbatim>\<open>Infinity\<close> or digits with an optional
  fraction and an optional exponent (an exponent marker without digits is not part of
  the literal). With no such prefix the result is \<^verbatim>\<open>NaN\<close>.
\<close>

definition exponent_part :: "string \<Rightarrow> int" where
  "exponent_part r =
     (case r of
        [] \<Rightarrow> 0
      | c # t \<Rightarrow>
          if c = CHR ''e'' \<or> c = CHR ''E'' then
            (let neg = (t \<noteq> [] \<and> hd t = CHR ''-'');
                 u = (if t \<noteq> [] \<and> (hd t = CHR ''+'' \<or> hd t = CHR ''-'') then tl t else t);
                 ds = takeWhile is_digit u
             in if ds = [] then 0
                else if neg then - digits_val 10 digit_val ds
                else digits_val 10 digit_val ds)
          else 0)"

definition unsigned_decimal :: "string \<Rightarrow> (int \<times> int) option" where
  "unsigned_decimal u =
     (let ip = takeWhile is_digit u;
          r1 = dropWhile is_digit u;
          dot = (r1 \<noteq> [] \<and> hd r1 = CHR ''.'');
          fp = (if dot then takeWhile is_digit (tl r1) else []);
          r2 = (if dot then dropWhile is_digit (tl r1) else r1)
      in if ip = [] \<and> fp = [] then None
         else Some (digits_val 10 digit_val (ip @ fp), exponent_part r2 - int (length fp)))"

definition parseFloat_str :: "string \<Rightarrow> jsnum" where
  "parseFloat_str s =
     (let t = trim_start s;
          neg = (t \<noteq> [] \<and> hd t = CHR ''-'');
          u = (if t \<noteq> [] \<and> (hd t = CHR ''+'' \<or> hd t = CHR ''-'') then tl t else t)
      in if take 8 u = ''Infinity'' then (if neg then NegInf else PosInf)
         else (case unsigned_decimal u of
                 None \<Rightarrow> NaN
               | Some (m, e) \<Rightarrow> Fin (if neg then - m else m) e))"


subsection \<open>Numbers to strings\<close>

text \<open>
  \<^verbatim>\<open>Number::toString\<close> in radix 10. For a non-zero number the digits \<open>ds\<close> are those
  of the mantissa without trailing zeros, \<open>k\<close> is their count and \<open>n\<close> the position of
  the decimal point; plain notation is used for \<open>-6 < n \<le> 21\<close>, exponent notation
  otherwise.
\<close>

definition pos_to_string :: "int \<Rightarrow> int \<Rightarrow> string" where
  "pos_to_string m e =
     (let ds0 = digits_of m;
          z = length (takeWhile (\<lambda>c. c = CHR ''0'') (rev ds0));
          ds = take (length ds0 - z) ds0;
          k = int (length ds);
          n = k + e + int z
      in if k \<le> n \<and> n \<le> 21 then ds @ replicate (nat (n - k)) CHR ''0''
         else if 0 < n \<and> n \<le> 21 then take (nat n) ds @ ''.'' @ drop (nat n) ds
         else if - 6 < n \<and> n \<le> 0 then ''0.'' @ replicate (nat (- n)) CHR ''0'' @ ds
         else (if k = 1 then ds else take 1 ds @ ''.'' @ drop 1 ds)
              @ ''e'' @ (if n - 1 < 0 then ''-'' else ''+'') @ digits_of \<bar>n - 1\<bar>)"

fun num_to_string :: "jsnum \<Rightarrow> string" where
  "num_to_string NaN = ''NaN''"
| "num_to_string PosInf = ''Infinity''"
| "num_to_string NegInf = ''-Infinity''"
| "num_to_string (Fin m e) =
     (if m = 0 then ''0''
      else (if m < 0 then ''-'' else []) @ pos_to_string \<bar>m\<bar> e)"

text \<open>\<^verbatim>\<open>ToString\<close>, as applied by template literals, \<^verbatim>\<open>parseInt\<close> and \<^verbatim>\<open>parseFloat\<close>.\<close>

fun to_string :: "jsval \<Rightarrow> string" where
  "to_string JUndefined = ''undefined''"
| "to_string JNull = ''null''"
| "to_string (JStr s) = s"
| "to_string (JNum x) = num_to_string x"

definition parseInt :: "jsval \<Rightarrow> jsnum" where
  "parseInt v = parseInt_str (to_string v)"

definition parseFloat :: "jsval \<Rightarrow> jsnum" where
  "parseFloat v = parseFloat_str (to_string v)"

text \<open>
  \<^verbatim>\<open>x.toFixed(2)\<close>: a non-finite number prints as \<^verbatim>\<open>ToString\<close> does, and so does a
  number of magnitude \<open>10\<^sup>2\<^sup>1\<close> or more; otherwise the magnitude is rounded to hundredths
  (ties upwards) and printed with two fraction digits. The rounding here is that of the
  exact decimal; the code rounds the double nearest to it, so the last digit can differ
  (\<^verbatim>\<open>(1.005).toFixed(2)\<close> is \<^verbatim>\<open>1.00\<close> in the code and \<^verbatim>\<open>1.01\<close> here).
\<close>

definition hundredths :: "int \<Rightarrow> int \<Rightarrow> int" where
  "hundredths m e =
     (if 0 \<le> e + 2 then m * 10 ^ nat (e + 2)
      else (2 * m + 10 ^ nat (- (e + 2))) div (2 * 10 ^ nat (- (e + 2))))"

definition at_least_1e21 :: "int \<Rightarrow> int \<Rightarrow> bool" where
  "at_least_1e21 m e =
     (if 0 \<le> e then 10 ^ 21 \<le> m * 10 ^ nat e else 10 ^ (21 + nat (- e)) \<le> m)"

definition fixed2_digits :: "int \<Rightarrow> string" where
  "fixed2_digits n =
     (let ds = digits_of n;
          ps = replicate (3 - length ds) CHR ''0'' @ ds
      in take (length ps - 2) ps @ ''.'' @ drop (length ps - 2) ps)"

fun toFixed2 :: "jsnum \<Rightarrow> string" where
  "toFixed2 NaN = ''NaN''"
| "toFixed2 PosInf = ''Infinity''"
| "toFixed2 NegInf = ''-Infinity''"
| "toFixed2 (Fin m e) =
     (if at_least_1e21 \<bar>m\<bar> e then num_to_string (Fin m e)
      else (if m < 0 then ''-'' else []) @ fixed2_digits (hundredths \<bar>m\<bar> e))"

text \<open>Multiplication of numbers (\<^verbatim>\<open>average_price * 1.15\<close>), exact: the code's product is
  rounded to a double, and is \<^verbatim>\<open>Infinity\<close> beyond the range of doubles.\<close>

fun num_sign :: "jsnum \<Rightarrow> int" where
  "num_sign NaN = 0"
| "num_sign PosInf = 1"
| "num_sign NegInf = - 1"
| "num_sign (Fin m e) = sgn m"

fun num_mult :: "jsnum \<Rightarrow> jsnum \<Rightarrow> jsnum" where
  "num_mult NaN y = NaN"
| "num_mult x NaN = NaN"
| "num_mult (Fin m e) (Fin m' e') = Fin (m * m') (e + e')"
| "num_mult x y =
     (if num_sign x * num_sign y = 0 then NaN
      else if 0 < num_sign x * num_sign y then PosInf else NegInf)"

subsection \<open>String helpers of the handlers\<close>

text \<open>\<^verbatim>\<open>xs.join(sep)\<close> and \<^verbatim>\<open>s.split(c)\<close> for a one-character separator.\<close>

fun join_with :: "string \<Rightarrow> string list \<Rightarrow> string" where
  "join_with sep [] = []"
| "join_with sep [x] = x"
| "join_with sep (x # y # ys) = x @ sep @ join_with sep (y # ys)"

fun split_on :: "char \<Rightarrow> string \<Rightarrow> string list" where
  "split_on c [] = [[]]"
| "split_on c (x # xs) =
     (if x = c then [] # split_on c xs
      else (case split_on c xs of [] \<Rightarrow> [[x]] | p # ps \<Rightarrow> (x # p) # ps))"


section \<open>The listing form (MovieForm component)\<close>

text \<open>
  \<^verbatim>\<open>formData\<close>: the state of one listing form. Fields bound to text inputs and selects
  hold strings; so does \<^verbatim>\<open>title\<close>, which starts as the title that the upload component
  derives from the file name (the optional chaining in \<^verbatim>\<open>formData.title?.trim()\<close> never
  meets a missing title). Fields bound to \<^verbatim>\<open>type="number"\<close> inputs (\<^verbatim>\<open>price\<close>,
  \<^verbatim>\<open>quantity\<close>, \<^verbatim>\<open>releaseYear\<close>, \<^verbatim>\<open>runtime\<close>, \<^verbatim>\<open>shippingCost\<close>) start as strings and
  later hold numbers or \<^verbatim>\<open>null\<close>; \<^verbatim>\<open>s3Url\<close> holds what the upload response carried.
  These are values of type \<^typ>\<open>jsval\<close>.
\<close>

record form_data =
  title :: string
  condition :: string
  description :: string
  price :: jsval
  quantity :: jsval
  location :: string
  movieTitle :: string
  studio :: string
  genre :: string
  subGenre :: string
  director :: string
  actors :: string
  releaseYear :: jsval
  rating :: string
  runtime :: jsval
  regionCode :: string
  language :: string
  caseType :: string
  features :: string
  s3Url :: jsval
  averagePrice :: string
  shippingCost :: jsval
  totalCost :: string
  userNotes :: string

text \<open>The image handed to the form by the upload component (\<^verbatim>\<open>processFiles\<close>).\<close>

record image =
  img_url :: string
  img_title :: string
  originalFilename :: string

text \<open>The object built by \<^verbatim>\<open>transformToBluerayItem\<close>; \<^verbatim>\<open>null\<close> is \<^term>\<open>None\<close>.\<close>

record movie_metadata =
  md_title :: string
  release_date :: "string option"
  genres :: "string list"
  md_director :: string
  md_actors :: "string list"
  md_studio :: string
  md_rating :: string
  md_runtime :: "jsnum option"
  overview :: "string option"

record price_data_rec =
  average_price :: "jsnum option"
  shipping_cost :: "jsnum option"
  total_cost :: "jsnum option"
  comparable_listings :: "jsval list"

record custom_fields_rec =
  cf_price :: jsnum
  cf_quantity :: jsnum
  cf_description :: string
  cf_location :: string
  region_code :: string
  cf_language :: string
  case_type :: string
  cf_features :: string

record bluray_item =
  item_title :: string
  item_condition :: string
  photos :: "jsval list"
  metadata :: movie_metadata
  price_data :: price_data_rec
  user_notes :: string
  custom_fields :: custom_fields_rec

record form_state =
  formData :: form_data
  loading_metadata :: bool
  loading_pricing :: bool
  loading_upload :: bool
  errors_metadata :: string
  errors_pricing :: string
  errors_upload :: string
  errors_submit :: string
  isSubmitted :: bool

definition init_formData :: "image \<Rightarrow> form_data" where
  "init_formData img =
     \<lparr> title = img_title img, condition = ''Used'', description = [],
       price = JStr ''12.99'', quantity = JStr ''1'', location = ''United States'',
       movieTitle = [], studio = [], genre = [], subGenre = [], director = [],
       actors = [], releaseYear = JStr [], rating = ''PG-13'', runtime = JStr [],
       regionCode = ''1'', language = ''English'', caseType = ''Standard Blu-ray Case'',
       features = [], s3Url = JStr [], averagePrice = [], shippingCost = JStr ''4.99'',
       totalCost = [], userNotes = [] \<rparr>"

definition init_form :: "image \<Rightarrow> form_state" where
  "init_form img =
     \<lparr> formData = init_formData img,
       loading_metadata = False, loading_pricing = False, loading_upload = False,
       errors_metadata = [], errors_pricing = [], errors_upload = [], errors_submit = [],
       isSubmitted = False \<rparr>"

subsection \<open>validateForm\<close>

text \<open>
  The four checks run one after the other, each pushing its message onto the list; no
  check returns early.
\<close>

definition validateForm :: "form_data \<Rightarrow> string list" where
  "validateForm fd =
     (let e0 = [];
          e1 = (if trim (title fd) = [] then e0 @ [''Listing title is required''] else e0);
          e2 = (if \<not> truthy (s3Url fd) then e1 @ [''Please upload image to AWS first'']
                else e1);
          e3 = (if \<not> truthy (price fd) \<or> le_zero (parseFloat (price fd))
                then e2 @ [''Valid price is required''] else e2);
          e4 = (if \<not> truthy (quantity fd) \<or> le_zero (parseInt (quantity fd))
                then e3 @ [''Valid quantity is required''] else e3)
      in e4)"

subsection \<open>transformToBluerayItem\<close>

definition transformToBluerayItem :: "form_data \<Rightarrow> bluray_item" where
  "transformToBluerayItem fd =
     \<lparr> item_title = title fd,
       item_condition = condition fd,
       photos = [s3Url fd],
       metadata =
         \<lparr> md_title = (if movieTitle fd \<noteq> [] then movieTitle fd else title fd),
           release_date = (if truthy (releaseYear fd)
                           then Some (to_string (releaseYear fd) @ ''-01-01'') else None),
           genres = filter (\<lambda>g. g \<noteq> []) [genre fd, subGenre fd],
           md_director = director fd,
           md_actors = (if actors fd \<noteq> [] then map trim (split_on CHR '','' (actors fd))
                        else []),
           md_studio = studio fd,
           md_rating = rating fd,
           md_runtime = (if truthy (runtime fd) then Some (parseInt (runtime fd)) else None),
           overview = None \<rparr>,
       price_data =
         \<lparr> average_price = (if averagePrice fd \<noteq> []
                            then Some (parseFloat (JStr (averagePrice fd))) else None),
           shipping_cost = (if truthy (shippingCost fd)
                            then Some (parseFloat (shippingCost fd)) else None),
           total_cost = (if totalCost fd \<noteq> []
                         then Some (parseFloat (JStr (totalCost fd))) else None),
           comparable_listings = [] \<rparr>,
       user_notes = userNotes fd,
       custom_fields =
         \<lparr> cf_price = parseFloat (price fd),
           cf_quantity = parseInt (quantity fd),
           cf_description = description fd,
           cf_location = location fd,
           region_code = regionCode fd,
           cf_language = language fd,
           case_type = caseType fd,
           cf_features = features fd \<rparr> \<rparr>"

subsection \<open>handleSubmit\<close>

text \<open>
  \<^verbatim>\<open>handleSubmit\<close> clears \<^verbatim>\<open>errors.submit\<close> and validates. With a non-empty error list
  it stores the messages joined by \<^verbatim>\<open>'; '\<close> and returns before anything else happens.
  Otherwise it builds the item, marks the form submitted and calls the parent's
  \<^verbatim>\<open>onSubmit\<close> callback, when the parent passed one. The parent's state is threaded
  through as \<open>p\<close>.
\<close>

definition handleSubmit ::
  "(bluray_item \<Rightarrow> 'p \<Rightarrow> 'p) option \<Rightarrow> form_state \<Rightarrow> 'p \<Rightarrow> form_state \<times> 'p" where
  "handleSubmit onSubmit fs p =
     (let fs0 = fs\<lparr>errors_submit := []\<rparr>;
          validationErrors = validateForm (formData fs0)
      in if length validationErrors > 0
         then (fs0\<lparr>errors_submit := join_with ''; '' validationErrors\<rparr>, p)
         else (let item = transformToBluerayItem (formData fs0);
                   fs1 = fs0\<lparr>isSubmitted := True\<rparr>
               in case onSubmit of
                    None \<Rightarrow> (fs1, p)
                  | Some f \<Rightarrow> (fs1, f item p)))"

section \<open>The page (routes/+page.svelte)\<close>

record page_state =
  uploadedImages :: "image list"
  currentIndex :: nat
  submittedItems :: "bluray_item list"
  isDownloading :: bool
  downloadError :: string

definition init_page :: page_state where
  "init_page =
     \<lparr> uploadedImages = [], currentIndex = 0, submittedItems = [],
       isDownloading = False, downloadError = [] \<rparr>"

definition handleImagesUploaded :: "image list \<Rightarrow> page_state \<Rightarrow> page_state" where
  "handleImagesUploaded images ps =
     ps\<lparr>uploadedImages := images, currentIndex := 0, submittedItems := []\<rparr>"

text \<open>\<^verbatim>\<open>handleItemSubmit\<close>: \<^verbatim>\<open>push\<close> appends at the end; then the page advances to the
  next image when there is one (\<^verbatim>\<open>length - 1\<close> is \<open>-1\<close> for an empty array).\<close>

definition handleItemSubmit :: "bluray_item \<Rightarrow> page_state \<Rightarrow> page_state" where
  "handleItemSubmit item ps =
     (let ps1 = ps\<lparr>submittedItems := submittedItems ps @ [item]\<rparr>
      in if int (currentIndex ps1) < int (length (uploadedImages ps1)) - 1
         then ps1\<lparr>currentIndex := currentIndex ps1 + 1\<rparr>
         else ps1)"

definition goToPrevious :: "page_state \<Rightarrow> page_state" where
  "goToPrevious ps =
     (if currentIndex ps > 0 then ps\<lparr>currentIndex := currentIndex ps - 1\<rparr> else ps)"

definition goToNext :: "page_state \<Rightarrow> page_state" where
  "goToNext ps =
     (if int (currentIndex ps) < int (length (uploadedImages ps)) - 1
      then ps\<lparr>currentIndex := currentIndex ps + 1\<rparr> else ps)"

definition goToImage :: "nat \<Rightarrow> page_state \<Rightarrow> page_state" where
  "goToImage index ps = ps\<lparr>currentIndex := index\<rparr>"

definition isItemSubmitted :: "page_state \<Rightarrow> nat \<Rightarrow> bool" where
  "isItemSubmitted ps index = (length (submittedItems ps) > index)"

subsection \<open>downloadCSV\<close>

text \<open>
  The outcome of a \<^verbatim>\<open>fetch\<close>: the promise is rejected with a message, the response has a
  status that is not ok, or the response is ok and carries a body. The CSV itself is
  written by the server behind \<^verbatim>\<open>/template/generate-csv\<close>, which is not part of the
  front end: it is the parameter \<open>generate_csv\<close>, a function of the request body
  \<^verbatim>\<open>JSON.stringify(submittedItems)\<close>.
\<close>

datatype 'a fetch_result = Rejected string | Status nat | Body 'a

record download =
  file_name :: string
  file_content :: string

definition http_error_message :: "nat \<Rightarrow> string" where
  "http_error_message st = ''HTTP error! status: '' @ string_of_nat st"

definition csv_file_name :: "nat \<Rightarrow> string" where
  "csv_file_name n = ''ebay_bluray_listings_'' @ string_of_nat n @ ''_items.csv''"

text \<open>
  \<^verbatim>\<open>downloadCSV\<close>, from the click to the settled promise. With no submitted item it sets
  \<^verbatim>\<open>downloadError\<close> and returns at once, before any request. Otherwise it posts the
  items; an ok response is saved under a name built from the number of items, a failure
  is reported in \<^verbatim>\<open>downloadError\<close>. The second component is the file offered to the
  browser for saving, if any.
\<close>

definition downloadCSV ::
  "(bluray_item list \<Rightarrow> string fetch_result) \<Rightarrow> page_state \<Rightarrow> page_state \<times> download option"
  where
  "downloadCSV generate_csv ps =
     (if length (submittedItems ps) = 0
      then (ps\<lparr>downloadError := ''No items to export''\<rparr>, None)
      else
        (let ps1 = ps\<lparr>isDownloading := True, downloadError := []\<rparr>
         in case generate_csv (submittedItems ps1) of
              Body blob \<Rightarrow>
                (ps1\<lparr>isDownloading := False\<rparr>,
                 Some \<lparr> file_name = csv_file_name (length (submittedItems ps1)),
                        file_content = blob \<rparr>)
            | Status st \<Rightarrow>
                (ps1\<lparr>downloadError := ''Failed to generate CSV: '' @ http_error_message st,
                      isDownloading := False\<rparr>, None)
            | Rejected msg \<Rightarrow>
                (ps1\<lparr>downloadError := ''Failed to generate CSV: '' @ msg,
                      isDownloading := False\<rparr>, None)))"

section \<open>The form's handlers and inputs\<close>

subsection \<open>Server responses\<close>

text \<open>
  The JSON bodies the form reads, with the types the handlers expect: an absent or
  \<^verbatim>\<open>null\<close> member is \<^term>\<open>None\<close>. A member of another type makes the handler throw
  inside its \<^verbatim>\<open>try\<close> block and keep the fields assigned so far; those paths are not
  modelled. (In \<^verbatim>\<open>fetchPricing\<close> the price is assigned last, after every call of
  \<^verbatim>\<open>toFixed\<close>, so such a path does not write it.)
\<close>

record metadata_response =
  r_title :: "string option"
  r_studio :: "string option"
  r_genres :: "string list option"
  r_director :: "string option"
  r_actors :: "string list option"
  r_release_date :: "string option"
  r_rating :: "string option"
  r_runtime :: "jsnum option"
  r_overview :: "string option"

record pricing_response =
  r_average_price :: "jsnum option"
  r_shipping_cost :: "jsnum option"
  r_total_cost :: "jsnum option"

record upload_result =
  s3_url :: jsval

text \<open>\<^verbatim>\<open>x || d\<close> for an optional string \<open>x\<close>, and the truthiness of optional members.\<close>

definition str_or :: "string option \<Rightarrow> string \<Rightarrow> string" where
  "str_or x d = (case x of None \<Rightarrow> d | Some s \<Rightarrow> if s \<noteq> [] then s else d)"

definition present :: "string option \<Rightarrow> bool" where
  "present x = (case x of None \<Rightarrow> False | Some s \<Rightarrow> s \<noteq> [])"

definition num_present :: "jsnum option \<Rightarrow> bool" where
  "num_present x = (case x of None \<Rightarrow> False | Some n \<Rightarrow> truthy (JNum n))"

subsection \<open>generateDescription and fetchMetadata\<close>

definition generateDescription :: "form_data \<Rightarrow> metadata_response \<Rightarrow> string" where
  "generateDescription fd md =
     (let d0 = ''<div style='font-family: Arial, sans-serif;'>'';
          d1 = (if present (r_title md) then d0 @ ''<h3>'' @ the (r_title md) @ ''</h3>'' else d0);
          d2 = (if present (r_overview md)
                then d1 @ ''<p><strong>Plot:</strong> '' @ take 200 (the (r_overview md)) @ ''...</p>''
                else d1);
          d3 = (if present (r_director md)
                then d2 @ ''<p><strong>Director:</strong> '' @ the (r_director md) @ ''</p>''
                else d2);
          d4 = (case r_actors md of
                  Some (a # as) \<Rightarrow>
                    d3 @ ''<p><strong>Cast:</strong> '' @ join_with '', '' (take 5 (a # as)) @ ''</p>''
                | _ \<Rightarrow> d3);
          d5 = (case r_genres md of
                  Some (g # gs) \<Rightarrow>
                    d4 @ ''<p><strong>Genre:</strong> '' @ join_with '', '' (g # gs) @ ''</p>''
                | _ \<Rightarrow> d4);
          d6 = (if num_present (r_runtime md)
                then d5 @ ''<p><strong>Runtime:</strong> '' @ num_to_string (the (r_runtime md))
                     @ '' minutes</p>''
                else d5);
          d7 = d6 @ ''<p><strong>Condition:</strong> '' @ condition fd @ ''</p>'';
          d8 = d7 @ ''<p><strong>Format:</strong> Blu-ray</p>'';
          d9 = d8 @ ''<p><strong>Region:</strong> Region 1 (US/Canada)</p>'';
          d10 = d9 @ ''<p>Fast shipping with tracking. Returns accepted within 30 days.</p>'';
          d11 = d10 @ ''</div>''
      in d11)"

text \<open>
  The asynchronous handlers are modelled from the click to the settled promise, with the
  outcome of the request as their argument; \<^verbatim>\<open>loading\<close> is back to false at the end.
\<close>

definition failure_message :: "'a fetch_result \<Rightarrow> string" where
  "failure_message r =
     (case r of Rejected msg \<Rightarrow> msg | Status st \<Rightarrow> http_error_message st | Body _ \<Rightarrow> [])"

definition fetchMetadata :: "metadata_response fetch_result \<Rightarrow> form_state \<Rightarrow> form_state" where
  "fetchMetadata res fs =
     (case res of
        Body md \<Rightarrow>
          (let fd = formData fs;
               fd1 = fd\<lparr>movieTitle := str_or (r_title md) (title fd),
                        studio := str_or (r_studio md) [],
                        genre := (case r_genres md of Some (g # _) \<Rightarrow> g | _ \<Rightarrow> []),
                        subGenre := (case r_genres md of Some (_ # g # _) \<Rightarrow> g | _ \<Rightarrow> []),
                        director := str_or (r_director md) [],
                        actors := (case r_actors md of Some as \<Rightarrow> join_with '', '' as | None \<Rightarrow> []),
                        releaseYear := (if present (r_release_date md)
                                        then JStr (case split_on CHR ''-'' (the (r_release_date md)) of
                                                     y # _ \<Rightarrow> y | [] \<Rightarrow> [])
                                        else JStr []),
                        rating := str_or (r_rating md) ''PG-13'',
                        runtime := (if num_present (r_runtime md)
                                    then JStr (num_to_string (the (r_runtime md)))
                                    else JStr [])\<rparr>;
               fd2 = fd1\<lparr>description := generateDescription fd1 md\<rparr>
           in fs\<lparr>formData := fd2, errors_metadata := [], loading_metadata := False\<rparr>)
      | _ \<Rightarrow>
          fs\<lparr>errors_metadata := ''Failed to fetch metadata: '' @ failure_message res,
              loading_metadata := False\<rparr>)"

subsection \<open>fetchPricing\<close>

text \<open>
  With a truthy \<^verbatim>\<open>average_price\<close> the suggested price becomes
  \<^verbatim>\<open>(average_price * 1.15).toFixed(2)\<close>, a string.
\<close>

definition fetchPricing :: "pricing_response fetch_result \<Rightarrow> form_state \<Rightarrow> form_state" where
  "fetchPricing res fs =
     (case res of
        Body pd \<Rightarrow>
          (let fd = formData fs;
               fd1 = fd\<lparr>averagePrice := str_or (map_option toFixed2 (r_average_price pd)) [],
                        shippingCost := JStr (str_or (map_option toFixed2 (r_shipping_cost pd)) ''4.99''),
                        totalCost := str_or (map_option toFixed2 (r_total_cost pd)) []\<rparr>;
               fd2 = (if num_present (r_average_price pd)
                      then fd1\<lparr>price := JStr (toFixed2 (num_mult (the (r_average_price pd))
                                                              (Fin 115 (- 2))))\<rparr>
                      else fd1)
           in fs\<lparr>formData := fd2, errors_pricing := [], loading_pricing := False\<rparr>)
      | _ \<Rightarrow>
          fs\<lparr>errors_pricing := ''Failed to fetch pricing: '' @ failure_message res,
              loading_pricing := False\<rparr>)"

subsection \<open>uploadToAWS\<close>

definition uploadToAWS :: "upload_result list option fetch_result \<Rightarrow> form_state \<Rightarrow> form_state"
  where
  "uploadToAWS res fs =
     (case res of
        Body uploadResults \<Rightarrow>
          (let fd = formData fs;
               fd1 = (case uploadResults of
                        Some (r # _) \<Rightarrow> fd\<lparr>s3Url := s3_url r\<rparr>
                      | _ \<Rightarrow> fd)
           in fs\<lparr>formData := fd1, errors_upload := [], loading_upload := False\<rparr>)
      | _ \<Rightarrow>
          fs\<lparr>errors_upload := ''Failed to upload to AWS: '' @ failure_message res,
              loading_upload := False\<rparr>)"

subsection \<open>Inputs bound to the form\<close>

text \<open>
  A \<^verbatim>\<open>type="number"\<close> input bound with \<^verbatim>\<open>bind:value\<close> delivers \<^verbatim>\<open>null\<close> when it is
  empty or holds no valid number, and the number otherwise. A bound \<^verbatim>\<open>select\<close> delivers
  the value of the option chosen; text inputs deliver their text.
\<close>

datatype number_input = Cleared | Entered int int

fun to_number :: "number_input \<Rightarrow> jsval" where
  "to_number Cleared = JNull"
| "to_number (Entered m e) = JNum (Fin m e)"

definition condition_options :: "string list" where
  "condition_options = [''New'', ''Like New'', ''Very Good'', ''Good'', ''Acceptable'', ''Used'']"

definition rating_options :: "string list" where
  "rating_options = [''G'', ''PG'', ''PG-13'', ''R'', ''NC-17'', ''NR'']"

definition region_options :: "string list" where
  "region_options = [''1'', ''2'', ''3'', ''0'']"

definition case_type_options :: "string list" where
  "case_type_options = [''Standard Blu-ray Case'', ''Steelbook'', ''Digipak'', ''Slip Cover'']"

text \<open>Choosing the \<open>i\<close>-th option of a select; there is no choice outside its options.\<close>

definition choose_option :: "string list \<Rightarrow> nat \<Rightarrow> string \<Rightarrow> string" where
  "choose_option opts i cur = (if i < length opts then opts ! i else cur)"

datatype form_event =
    EditTitle string
  | SelectCondition nat
  | EditPrice number_input
  | EditQuantity number_input
  | EditMovieTitle string
  | EditStudio string
  | EditGenre string
  | EditDirector string
  | EditActors string
  | EditReleaseYear number_input
  | SelectRating nat
  | EditRuntime number_input
  | SelectRegionCode nat
  | EditLanguage string
  | SelectCaseType nat
  | EditFeatures string
  | EditShippingCost number_input
  | EditDescription string
  | EditUserNotes string
  | FetchMetadata "metadata_response fetch_result"
  | FetchPricing "pricing_response fetch_result"
  | UploadToAWS "upload_result list option fetch_result"
  | ClickSubmit

definition edit :: "(form_data \<Rightarrow> form_data) \<Rightarrow> form_state \<Rightarrow> form_state" where
  "edit f fs = fs\<lparr>formData := f (formData fs)\<rparr>"

fun form_step :: "form_state \<Rightarrow> form_event \<Rightarrow> form_state" where
  "form_step fs (EditTitle s) = edit (\<lambda>fd. fd\<lparr>title := s\<rparr>) fs"
| "form_step fs (SelectCondition i) =
     edit (\<lambda>fd. fd\<lparr>condition := choose_option condition_options i (condition fd)\<rparr>) fs"
| "form_step fs (EditPrice v) = edit (\<lambda>fd. fd\<lparr>price := to_number v\<rparr>) fs"
| "form_step fs (EditQuantity v) = edit (\<lambda>fd. fd\<lparr>quantity := to_number v\<rparr>) fs"
| "form_step fs (EditMovieTitle s) = edit (\<lambda>fd. fd\<lparr>movieTitle := s\<rparr>) fs"
| "form_step fs (EditStudio s) = edit (\<lambda>fd. fd\<lparr>studio := s\<rparr>) fs"
| "form_step fs (EditGenre s) = edit (\<lambda>fd. fd\<lparr>genre := s\<rparr>) fs"
| "form_step fs (EditDirector s) = edit (\<lambda>fd. fd\<lparr>director := s\<rparr>) fs"
| "form_step fs (EditActors s) = edit (\<lambda>fd. fd\<lparr>actors := s\<rparr>) fs"
| "form_step fs (EditReleaseYear v) = edit (\<lambda>fd. fd\<lparr>releaseYear := to_number v\<rparr>) fs"
| "form_step fs (SelectRating i) =
     edit (\<lambda>fd. fd\<lparr>rating := choose_option rating_options i (rating fd)\<rparr>) fs"
| "form_step fs (EditRuntime v) = edit (\<lambda>fd. fd\<lparr>runtime := to_number v\<rparr>) fs"
| "form_step fs (SelectRegionCode i) =
     edit (\<lambda>fd. fd\<lparr>regionCode := choose_option region_options i (regionCode fd)\<rparr>) fs"
| "form_step fs (EditLanguage s) = edit (\<lambda>fd. fd\<lparr>language := s\<rparr>) fs"
| "form_step fs (SelectCaseType i) =
     edit (\<lambda>fd. fd\<lparr>caseType := choose_option case_type_options i (caseType fd)\<rparr>) fs"
| "form_step fs (EditFeatures s) = edit (\<lambda>fd. fd\<lparr>features := s\<rparr>) fs"
| "form_step fs (EditShippingCost v) = edit (\<lambda>fd. fd\<lparr>shippingCost := to_number v\<rparr>) fs"
| "form_step fs (EditDescription s) = edit (\<lambda>fd. fd\<lparr>description := s\<rparr>) fs"
| "form_step fs (EditUserNotes s) = edit (\<lambda>fd. fd\<lparr>userNotes := s\<rparr>) fs"
| "form_step fs (FetchMetadata res) = fetchMetadata res fs"
| "form_step fs (FetchPricing res) = fetchPricing res fs"
| "form_step fs (UploadToAWS res) = uploadToAWS res fs"
| "form_step fs ClickSubmit = fst (handleSubmit None fs ())"

text \<open>The form as it stands after a sequence of events, starting from the form opened
  for an image.\<close>

definition form_run :: "image \<Rightarrow> form_event list \<Rightarrow> form_state" where
  "form_run img evs = foldl form_step (init_form img) evs"

subsection \<open>Events of the page\<close>

text \<open>
  What changes the page: a new batch of images, the navigation buttons, the download
  button, and a click on the submit button of a form that has seen the events \<open>evs\<close>
  since it was opened for \<open>img\<close>.
\<close>

datatype page_event =
    ImagesUploaded "image list"
  | Previous
  | Next
  | GoTo nat
  | Download "bluray_item list \<Rightarrow> string fetch_result"
  | Submit image "form_event list"

fun page_step :: "page_state \<Rightarrow> page_event \<Rightarrow> page_state" where
  "page_step ps (ImagesUploaded images) = handleImagesUploaded images ps"
| "page_step ps Previous = goToPrevious ps"
| "page_step ps Next = goToNext ps"
| "page_step ps (GoTo i) = goToImage i ps"
| "page_step ps (Download generate_csv) = fst (downloadCSV generate_csv ps)"
| "page_step ps (Submit img evs) =
     snd (handleSubmit (Some handleItemSubmit) (form_run img evs) ps)"

definition page_run :: "page_event list \<Rightarrow> page_state" where
  "page_run evs = foldl page_step init_page evs"


section \<open>Sequences of submissions and example data\<close>

text \<open>Successive clicks on the submit button, each with the form as it stands then.\<close>

definition submit_all :: "form_state list \<Rightarrow> page_state \<Rightarrow> page_state" where
  "submit_all fss ps = foldl (\<lambda>p fs. snd (handleSubmit (Some handleItemSubmit) fs p)) ps fss"

text \<open>
  Example data: an image, the form of the specification's scenario (title
  \<^verbatim>\<open>The Dark Knight\<close>, condition \<^verbatim>\<open>Very Good\<close>, price 9.99, quantity 1, one photo), a form
  failing every check, and sessions of page events.
\<close>

definition example_image :: image where
  "example_image =
     \<lparr> img_url = ''blob:1'', img_title = ''The Dark Knight'',
       originalFilename = ''the-dark-knight.jpg'' \<rparr>"

definition example_valid_form :: form_state where
  "example_valid_form =
     (init_form example_image)
       \<lparr>formData := (init_formData example_image)
          \<lparr>condition := ''Very Good'', price := JNum (Fin 999 (- 2)),
           s3Url := JStr ''https://bucket.s3.amazonaws.com/dark-knight.jpg''\<rparr>\<rparr>"

definition example_blank_form :: form_state where
  "example_blank_form =
     (init_form example_image)
       \<lparr>formData := (init_formData example_image)
          \<lparr>title := ''   '', price := JNull, quantity := JNum (Fin 0 0)\<rparr>\<rparr>"

definition example_upload :: form_event where
  "example_upload =
     UploadToAWS (Body (Some [\<lparr>s3_url = JStr ''https://bucket.s3.amazonaws.com/dark-knight.jpg''\<rparr>]))"

definition example_session :: "page_event list" where
  "example_session =
     [ImagesUploaded [example_image],
      Submit example_image [],
      Submit example_image [example_upload, SelectCondition 2, EditPrice (Entered 999 (- 2))]]"

text \<open>A stand-in for the CSV endpoint: a header line, then one line per item.\<close>

definition example_csv_server :: "bluray_item list \<Rightarrow> string fetch_result" where
  "example_csv_server items = Body (''*Action,*Title'' @ concat (map (\<lambda>it. [CHR 0x0A] @ ''Add,'' @ item_title it) items))"

text \<open>The condition domain as the specification states it (not found in the front end).\<close>

definition claimed_condition_domain :: "string list" where
  "claimed_condition_domain =
     [''New'', ''New other'', ''Used'', ''Very Good'', ''Good'', ''Acceptable'']"

text \<open>Uploading the photo and choosing the second option of the condition select.\<close>

definition example_like_new_session :: "page_event list" where
  "example_like_new_session =
     [ImagesUploaded [example_image],
      Submit example_image [example_upload, SelectCondition 1]]"


section \<open>The Defaults Resolver\<close>

text \<open>
  The resolver that merges configured defaults with caller-supplied overrides belongs to
  the MCP server, whose sources are not among the files modelled (its README describes the
  overrides); the form above has no override map. The definitions of this section follow
  the specification (section 4.2).
\<close>

text \<open>Modelled from the spec: the listing record that the missing resolver returns, as a
  map from field names to values (\<^verbatim>\<open>condition\<close> is one of the fields).\<close>

type_synonym listing_record = "string \<rightharpoonup> string"

text \<open>Modelled from the spec: the error kind \<^verbatim>\<open>UnrecognizedOverride\<close> of the missing
  resolver, with the field and the value that was not recognised.\<close>

datatype resolve_error = UnrecognizedOverride string string

text \<open>Modelled from the spec: the fixed coercion lookup table of the missing resolver.
  A field with a table takes only the phrases of its table, each standing for a value of
  the field's domain; a field without one is free text. The specification gives one
  entry, the phrase \<^verbatim>\<open>like new\<close> for the condition \<^verbatim>\<open>New other\<close>, so the table is a
  parameter.\<close>

type_synonym coercion_table = "string \<Rightarrow> (string \<rightharpoonup> string) option"

text \<open>Modelled from the spec: the override step of the missing resolver. For every key of
  the override mapping the value replaces the one held so far, coerced through the table;
  a value that the table of its field does not hold fails with
  \<^verbatim>\<open>UnrecognizedOverride\<close>, and nothing falls back to the default.\<close>

fun apply_overrides ::
  "coercion_table \<Rightarrow> (string \<times> string) list \<Rightarrow> listing_record
     \<Rightarrow> resolve_error + listing_record" where
  "apply_overrides table [] r = Inr r"
| "apply_overrides table ((k, v) # overrides) r =
     (case table k of
        None \<Rightarrow> apply_overrides table overrides (r(k \<mapsto> v))
      | Some phrases \<Rightarrow>
          (case phrases v of
             None \<Rightarrow> Inl (UnrecognizedOverride k v)
           | Some c \<Rightarrow> apply_overrides table overrides (r(k \<mapsto> c))))"

text \<open>Modelled from the spec: \<^verbatim>\<open>DefaultsResolver.resolve\<close>, missing from the sources. It
  starts from the configured defaults, takes the fields the caller supplied, and applies
  the overrides.\<close>

definition resolve ::
  "coercion_table \<Rightarrow> listing_record \<Rightarrow> listing_record \<Rightarrow> (string \<times> string) list
     \<Rightarrow> resolve_error + listing_record" where
  "resolve table defaults partial overrides = apply_overrides table overrides (defaults ++ partial)"

text \<open>Example data: a table with the entry of the specification, and the default condition
  named in the server's README.\<close>

definition example_table :: coercion_table where
  "example_table k =
     (if k = ''condition'' then Some (map_of [(''like new'', ''New other'')]) else None)"

definition example_defaults :: listing_record where
  "example_defaults =
     map_of [(''condition'', ''Very Good''), (''location'', ''Los Angeles, CA'')]"

section \<open>Validation and submission\<close>

lemma validateForm_checks:
  "validateForm fd =
     (if trim (title fd) = [] then [''Listing title is required''] else []) @
     (if \<not> truthy (s3Url fd) then [''Please upload image to AWS first''] else []) @
     (if \<not> truthy (price fd) \<or> le_zero (parseFloat (price fd))
      then [''Valid price is required''] else []) @
     (if \<not> truthy (quantity fd) \<or> le_zero (parseInt (quantity fd))
      then [''Valid quantity is required''] else [])"
  by (simp add: validateForm_def Let_def)

lemma validateForm_empty_iff:
  "(validateForm fd = []) =
     (trim (title fd) \<noteq> [] \<and> truthy (s3Url fd)
      \<and> truthy (price fd) \<and> \<not> le_zero (parseFloat (price fd))
      \<and> truthy (quantity fd) \<and> \<not> le_zero (parseInt (quantity fd)))"
  by (simp add: validateForm_checks)

lemma handleSubmit_rejected:
  "validateForm (formData fs) \<noteq> [] \<Longrightarrow>
   handleSubmit onSubmit fs p =
     (fs\<lparr>errors_submit := join_with ''; '' (validateForm (formData fs))\<rparr>, p)"
  by (simp add: handleSubmit_def Let_def)

lemma handleSubmit_accepted:
  "validateForm (formData fs) = [] \<Longrightarrow>
   handleSubmit (Some f) fs p =
     (fs\<lparr>errors_submit := [], isSubmitted := True\<rparr>,
      f (transformToBluerayItem (formData fs)) p)"
  by (simp add: handleSubmit_def Let_def)

lemma submittedItems_handleItemSubmit:
  "submittedItems (handleItemSubmit item ps) = submittedItems ps @ [item]"
  by (simp add: handleItemSubmit_def Let_def)

text \<open>
  Claim C1. The validator returns every failure, not only the first one: each of the four
  messages (title, photo, price, quantity) is in the returned list exactly when its check
  fails, the list keeps the order of the checks, and \<^verbatim>\<open>handleSubmit\<close> shows the caller
  all of them together, joined by \<^verbatim>\<open>'; '\<close>, in \<^verbatim>\<open>errors.submit\<close>.
\<close>

theorem validateForm_reports_all_failures:
  "((''Listing title is required'' \<in> set (validateForm fd)) = (trim (title fd) = []))
   \<and> ((''Please upload image to AWS first'' \<in> set (validateForm fd)) = (\<not> truthy (s3Url fd)))
   \<and> ((''Valid price is required'' \<in> set (validateForm fd))
        = (\<not> truthy (price fd) \<or> le_zero (parseFloat (price fd))))
   \<and> ((''Valid quantity is required'' \<in> set (validateForm fd))
        = (\<not> truthy (quantity fd) \<or> le_zero (parseInt (quantity fd))))
   \<and> validateForm fd =
        filter (\<lambda>m. m \<in> set (validateForm fd))
          [''Listing title is required'', ''Please upload image to AWS first'',
           ''Valid price is required'', ''Valid quantity is required'']
   \<and> errors_submit (fst (handleSubmit onSubmit (fs\<lparr>formData := fd\<rparr>) p))
        = join_with ''; '' (validateForm fd)"
proof -
  have sub: "errors_submit (fst (handleSubmit onSubmit (fs\<lparr>formData := fd\<rparr>) p))
        = join_with ''; '' (validateForm fd)"
    by (cases "validateForm fd = []")
       (simp_all add: handleSubmit_def Let_def split: option.splits)
  show ?thesis
    unfolding sub by (simp add: validateForm_checks)
qed


text \<open>A form whose four checks all fail gets all four messages, in order.\<close>

theorem validateForm_reports_all_failures_witness:
  "validateForm (formData example_blank_form) =
     [''Listing title is required'', ''Please upload image to AWS first'',
      ''Valid price is required'', ''Valid quantity is required'']
   \<and> errors_submit (fst (handleSubmit (Some handleItemSubmit) example_blank_form init_page))
       = ''Listing title is required; Please upload image to AWS first; Valid price is required; Valid quantity is required''"
proof -
  have v: "validateForm (formData example_blank_form) =
     [''Listing title is required'', ''Please upload image to AWS first'',
      ''Valid price is required'', ''Valid quantity is required'']"
    by code_simp
  have e: "example_blank_form\<lparr>formData := formData example_blank_form\<rparr> = example_blank_form"
    by simp
  have "errors_submit (fst (handleSubmit (Some handleItemSubmit) example_blank_form init_page))
          = join_with ''; '' (validateForm (formData example_blank_form))"
    using validateForm_reports_all_failures
            [of "formData example_blank_form" "Some handleItemSubmit" example_blank_form init_page]
    unfolding e by blast
  then show ?thesis
    by (simp add: v)
qed

text \<open>
  Claim C2. A form with no uploaded photo (a falsy \<^verbatim>\<open>s3Url\<close>) fails validation with the
  photo message among the failures; \<^verbatim>\<open>handleSubmit\<close> returns before it calls the parent,
  so nothing is appended to \<^verbatim>\<open>submittedItems\<close> and its length is unchanged.
\<close>

theorem missing_photo_rejected:
  "\<not> truthy (s3Url (formData fs)) \<Longrightarrow>
     ''Please upload image to AWS first'' \<in> set (validateForm (formData fs))
     \<and> snd (handleSubmit onSubmit fs p) = p
     \<and> submittedItems (snd (handleSubmit (Some handleItemSubmit) fs ps)) = submittedItems ps
     \<and> length (submittedItems (snd (handleSubmit (Some handleItemSubmit) fs ps)))
         = length (submittedItems ps)
     \<and> isSubmitted (fst (handleSubmit onSubmit fs p)) = isSubmitted fs
     \<and> errors_submit (fst (handleSubmit onSubmit fs p))
         = join_with ''; '' (validateForm (formData fs))"
proof -
  assume a: "\<not> truthy (s3Url (formData fs))"
  then have m: "''Please upload image to AWS first'' \<in> set (validateForm (formData fs))"
    by (simp add: validateForm_checks)
  then have ne: "validateForm (formData fs) \<noteq> []"
    by auto
  show ?thesis
    using m by (simp add: handleSubmit_rejected [OF ne])
qed

text \<open>The freshly opened form has no photo yet; submitting it leaves the store empty.\<close>

theorem missing_photo_rejected_witness:
  "\<not> truthy (s3Url (formData (init_form example_image)))
   \<and> ''Please upload image to AWS first'' \<in> set (validateForm (formData (init_form example_image)))
   \<and> submittedItems (snd (handleSubmit (Some handleItemSubmit) (init_form example_image) init_page)) = []
   \<and> length (submittedItems (snd (handleSubmit (Some handleItemSubmit) (init_form example_image) init_page))) = 0"
proof -
  have h: "\<not> truthy (s3Url (formData (init_form example_image)))"
    by (simp add: init_form_def init_formData_def)
  show ?thesis
    using h missing_photo_rejected [OF h, of "Some handleItemSubmit" init_page init_page]
    by (simp add: init_page_def)
qed

lemma submit_all_Nil: "submit_all [] ps = ps"
  by (simp add: submit_all_def)

lemma submit_all_Cons:
  "submit_all (fs # fss) ps = submit_all fss (snd (handleSubmit (Some handleItemSubmit) fs ps))"
  by (simp add: submit_all_def)

lemma submittedItems_handleSubmit:
  "submittedItems (snd (handleSubmit (Some handleItemSubmit) fs ps)) =
     submittedItems ps @
       (if validateForm (formData fs) = [] then [transformToBluerayItem (formData fs)] else [])"
  by (cases "validateForm (formData fs) = []")
     (simp_all add: handleSubmit_accepted handleSubmit_rejected submittedItems_handleItemSubmit)

lemma submittedItems_submit_all:
  "submittedItems (submit_all fss ps) =
     submittedItems ps @
       map (\<lambda>fs. transformToBluerayItem (formData fs))
           (filter (\<lambda>fs. validateForm (formData fs) = []) fss)"
proof (induction fss arbitrary: ps)
  case Nil
  show ?case by (simp add: submit_all_Nil)
next
  case (Cons fs fss)
  show ?case
    by (simp add: submit_all_Cons Cons.IH submittedItems_handleSubmit)
qed

text \<open>
  Claim C9. When the form is valid, submitting it appends the item built from the form at
  the end of \<^verbatim>\<open>submittedItems\<close>: the last element of the store is that item, and a
  sequence of submissions leaves the accepted items in the order of submission.
\<close>

theorem accepted_record_is_last:
  "validateForm (formData fs) = [] \<Longrightarrow>
     submittedItems (snd (handleSubmit (Some handleItemSubmit) fs ps))
       = submittedItems ps @ [transformToBluerayItem (formData fs)]
     \<and> last (submittedItems (snd (handleSubmit (Some handleItemSubmit) fs ps)))
       = transformToBluerayItem (formData fs)
     \<and> submittedItems (submit_all fss ps)
       = submittedItems ps @
           map (\<lambda>f. transformToBluerayItem (formData f))
               (filter (\<lambda>f. validateForm (formData f) = []) fss)"
  by (simp add: submittedItems_handleSubmit submittedItems_submit_all)

text \<open>A valid form submitted to the empty store.\<close>

theorem accepted_record_is_last_witness:
  "validateForm (formData example_valid_form) = []
   \<and> submittedItems (snd (handleSubmit (Some handleItemSubmit) example_valid_form init_page))
       = [transformToBluerayItem (formData example_valid_form)]
   \<and> item_title (last (submittedItems
         (snd (handleSubmit (Some handleItemSubmit) example_valid_form init_page))))
       = ''The Dark Knight''"
proof -
  have h: "validateForm (formData example_valid_form) = []"
    by code_simp
  have t: "item_title (transformToBluerayItem (formData example_valid_form)) = ''The Dark Knight''"
    by (simp add: transformToBluerayItem_def example_valid_form_def init_formData_def example_image_def)
  show ?thesis
    using h t accepted_record_is_last [OF h, of init_page "[]"]
    by (simp add: init_page_def)
qed

subsection \<open>Records in the store\<close>

lemma submittedItems_downloadCSV:
  "submittedItems (fst (downloadCSV g ps)) = submittedItems ps"
  by (simp add: downloadCSV_def Let_def split: fetch_result.splits)

lemma submittedItems_page_step:
  "submittedItems (page_step ps ev) =
     (case ev of
        ImagesUploaded images \<Rightarrow> []
      | Submit img evs \<Rightarrow>
          submittedItems ps @
            (if validateForm (formData (form_run img evs)) = []
             then [transformToBluerayItem (formData (form_run img evs))] else [])
      | _ \<Rightarrow> submittedItems ps)"
  by (cases ev)
     (simp_all add: handleImagesUploaded_def goToPrevious_def goToNext_def goToImage_def
        submittedItems_downloadCSV submittedItems_handleSubmit)

lemma page_run_snoc: "page_run (evs @ [ev]) = page_step (page_run evs) ev"
  by (simp add: page_run_def)

lemma stored_items_invariant:
  assumes "\<And>img evs. validateForm (formData (form_run img evs)) = [] \<Longrightarrow>
             P (transformToBluerayItem (formData (form_run img evs)))"
  shows "\<forall>it \<in> set (submittedItems (page_run pevs)). P it"
proof (induction pevs rule: rev_induct)
  case Nil
  show ?case by (simp add: page_run_def init_page_def)
next
  case (snoc ev pevs)
  then show ?case
    using assms
    by (auto simp add: page_run_snoc submittedItems_page_step split: page_event.splits)
qed

text \<open>
  Claim C10. The item built from a form has exactly one photo reference, the form's
  \<^verbatim>\<open>s3Url\<close>, and a form that passes validation has a truthy \<^verbatim>\<open>s3Url\<close>. So every
  record that is submitted, and every record found in \<^verbatim>\<open>submittedItems\<close> after any
  sequence of page events, has one photo: at least 1 and at most 12.
\<close>

theorem submitted_record_has_one_photo:
  "(validateForm fd = [] \<longrightarrow>
      photos (transformToBluerayItem fd) = [s3Url fd] \<and> truthy (s3Url fd)
      \<and> length (photos (transformToBluerayItem fd)) = 1
      \<and> 1 \<le> length (photos (transformToBluerayItem fd))
      \<and> length (photos (transformToBluerayItem fd)) \<le> 12)
   \<and> (\<forall>it \<in> set (submittedItems (page_run pevs)).
         length (photos it) = 1 \<and> truthy (hd (photos it)))"
proof -
  have a: "validateForm fd = [] \<longrightarrow>
      photos (transformToBluerayItem fd) = [s3Url fd] \<and> truthy (s3Url fd)
      \<and> length (photos (transformToBluerayItem fd)) = 1
      \<and> 1 \<le> length (photos (transformToBluerayItem fd))
      \<and> length (photos (transformToBluerayItem fd)) \<le> 12"
    by (simp add: validateForm_empty_iff transformToBluerayItem_def)
  have b: "\<forall>it \<in> set (submittedItems (page_run pevs)).
         length (photos it) = 1 \<and> truthy (hd (photos it))"
    by (rule stored_items_invariant)
       (simp add: validateForm_empty_iff transformToBluerayItem_def)
  from a b show ?thesis by blast
qed

lemma example_session_items:
  "submittedItems (page_run example_session) =
     [transformToBluerayItem (formData example_valid_form)]"
  by code_simp

text \<open>A session with one rejected and one accepted submission.\<close>

theorem submitted_record_has_one_photo_witness:
  "validateForm (formData example_valid_form) = []
   \<and> photos (transformToBluerayItem (formData example_valid_form))
       = [JStr ''https://bucket.s3.amazonaws.com/dark-knight.jpg'']
   \<and> length (submittedItems (page_run example_session)) = 1
   \<and> length (photos (hd (submittedItems (page_run example_session)))) = 1"
proof -
  have h: "validateForm (formData example_valid_form) = []"
    by code_simp
  have s: "s3Url (formData example_valid_form)
             = JStr ''https://bucket.s3.amazonaws.com/dark-knight.jpg''"
    by (simp add: example_valid_form_def)
  show ?thesis
    using h s submitted_record_has_one_photo [of "formData example_valid_form" example_session]
    by (simp add: example_session_items)
qed

section \<open>Export\<close>

lemma downloadCSV_empty:
  "submittedItems ps = [] \<Longrightarrow>
   downloadCSV g ps = (ps\<lparr>downloadError := ''No items to export''\<rparr>, None)"
  by (simp add: downloadCSV_def)

lemma downloadCSV_file:
  "snd (downloadCSV g ps) =
     (if submittedItems ps = [] then None
      else case g (submittedItems ps) of
             Body blob \<Rightarrow> Some \<lparr> file_name = csv_file_name (length (submittedItems ps)),
                                 file_content = blob \<rparr>
           | _ \<Rightarrow> None)"
  by (simp add: downloadCSV_def Let_def split: fetch_result.splits)

text \<open>
  Claim C7 says that exporting an empty store yields a header-only file together with a
  warning. \<^verbatim>\<open>downloadCSV\<close> has a guard instead: with no submitted item it sets
  \<^verbatim>\<open>downloadError\<close> and returns before any request, so no file is produced, even when
  the endpoint would answer the empty list with a header-only body.
\<close>

theorem empty_export_produces_file_counterexample:
  "snd (downloadCSV example_csv_server init_page) = None
   \<and> downloadError (fst (downloadCSV example_csv_server init_page)) = ''No items to export''
   \<and> example_csv_server (submittedItems init_page) = Body ''*Action,*Title''"
  by (simp add: downloadCSV_def init_page_def example_csv_server_def)

text \<open>
  Claim C7, amended. Exporting when the store is empty produces no file and sends no
  request: the result does not depend on the endpoint. The caller-visible message
  \<^verbatim>\<open>No items to export\<close> is set in \<^verbatim>\<open>downloadError\<close> and nothing else changes.
\<close>

theorem empty_export_is_refused:
  "submittedItems ps = [] \<Longrightarrow>
     snd (downloadCSV generate_csv ps) = None
     \<and> fst (downloadCSV generate_csv ps) = ps\<lparr>downloadError := ''No items to export''\<rparr>
     \<and> downloadError (fst (downloadCSV generate_csv ps)) = ''No items to export''
     \<and> submittedItems (fst (downloadCSV generate_csv ps)) = []"
  by (simp add: downloadCSV_empty)

text \<open>The page before any upload.\<close>

theorem empty_export_is_refused_witness:
  "submittedItems init_page = []
   \<and> snd (downloadCSV example_csv_server init_page) = None
   \<and> downloadError (fst (downloadCSV example_csv_server init_page)) = ''No items to export''"
proof -
  have h: "submittedItems init_page = []"
    by (simp add: init_page_def)
  show ?thesis
    using h empty_export_is_refused [OF h, of example_csv_server] by simp
qed

text \<open>
  Claim C8. An export does not change \<^verbatim>\<open>submittedItems\<close>. A second export posts the same
  items as the first, so with the endpoint a function of the request body it saves the
  same file: what an export saves does not depend on the exports before it.
\<close>

theorem export_is_repeatable:
  "submittedItems (fst (downloadCSV generate_csv ps)) = submittedItems ps
   \<and> snd (downloadCSV generate_csv (fst (downloadCSV generate_csv' ps)))
       = snd (downloadCSV generate_csv ps)
   \<and> map_option file_content (snd (downloadCSV generate_csv (fst (downloadCSV generate_csv ps))))
       = map_option file_content (snd (downloadCSV generate_csv ps))"
  unfolding downloadCSV_file submittedItems_downloadCSV by simp

text \<open>Two exports of a store holding one item.\<close>

theorem export_is_repeatable_witness:
  "submittedItems (fst (downloadCSV example_csv_server (page_run example_session)))
     = submittedItems (page_run example_session)
   \<and> map_option file_content (snd (downloadCSV example_csv_server (page_run example_session)))
     = Some (''*Action,*Title'' @ [CHR 0x0A] @ ''Add,The Dark Knight'')
   \<and> map_option file_content
        (snd (downloadCSV example_csv_server
               (fst (downloadCSV example_csv_server (page_run example_session)))))
     = Some (''*Action,*Title'' @ [CHR 0x0A] @ ''Add,The Dark Knight'')"
proof -
  have c: "map_option file_content (snd (downloadCSV example_csv_server (page_run example_session)))
     = Some (''*Action,*Title'' @ [CHR 0x0A] @ ''Add,The Dark Knight'')"
    by (simp add: downloadCSV_file example_session_items example_csv_server_def
          transformToBluerayItem_def example_valid_form_def init_formData_def example_image_def)
  show ?thesis
    using c export_is_repeatable
            [of example_csv_server "page_run example_session" example_csv_server]
    by simp
qed

subsection \<open>The file name\<close>

text \<open>Printing a number in decimal loses nothing: reading the digits gives it back.\<close>

lemma of_char_digit_char: "0 \<le> d \<Longrightarrow> d < 10 \<Longrightarrow> (of_char (digit_char d) :: int) = 48 + d"
  by (simp add: digit_char_def of_char_of)

lemma digit_val_digit_char: "0 \<le> d \<Longrightarrow> d < 10 \<Longrightarrow> digit_val (digit_char d) = d"
  by (simp add: digit_val_def of_char_digit_char)

lemma digits_val_snoc: "digits_val b v (ds @ [c]) = b * digits_val b v ds + v c"
  by (simp add: digits_val_def)

lemma digits_val_digits_of: "0 \<le> n \<Longrightarrow> digits_val 10 digit_val (digits_of n) = n"
proof (induction n rule: digits_of.induct)
  case (1 n)
  show ?case
  proof (cases "n < 10")
    case True
    with "1.prems" show ?thesis
      by (subst digits_of.simps) (simp add: digits_val_def digit_val_digit_char)
  next
    case False
    with "1.prems" have ih: "digits_val 10 digit_val (digits_of (n div 10)) = n div 10"
      by (intro "1.IH") auto
    have m: "digit_val (digit_char (n mod 10)) = n mod 10"
      by (rule digit_val_digit_char) auto
    from False show ?thesis
      by (subst digits_of.simps) (simp add: digits_val_snoc ih m)
  qed
qed

lemma string_of_nat_inj: "string_of_nat n = string_of_nat m \<Longrightarrow> n = m"
proof -
  assume "string_of_nat n = string_of_nat m"
  then have "digits_val 10 digit_val (digits_of (int n)) = digits_val 10 digit_val (digits_of (int m))"
    by (simp add: string_of_nat_def)
  then show "n = m"
    by (simp add: digits_val_digits_of)
qed

lemma csv_file_name_inj: "(csv_file_name n = csv_file_name m) = (n = m)"
  by (auto simp add: csv_file_name_def dest: string_of_nat_inj)

text \<open>
  Claim C6 says that the file name carries the item count and a timestamp, so that no two
  exports share a name. The name built by \<^verbatim>\<open>downloadCSV\<close> carries the count only: two
  exports of the same store get the same name.
\<close>

theorem export_name_unique_counterexample:
  "map_option file_name (snd (downloadCSV example_csv_server (page_run example_session)))
     = Some ''ebay_bluray_listings_1_items.csv''
   \<and> map_option file_name
        (snd (downloadCSV example_csv_server
               (fst (downloadCSV example_csv_server (page_run example_session)))))
     = Some ''ebay_bluray_listings_1_items.csv''"
proof -
  have n: "csv_file_name (Suc 0) = ''ebay_bluray_listings_1_items.csv''"
    by code_simp
  show ?thesis
    by (simp add: downloadCSV_file submittedItems_downloadCSV example_session_items
          example_csv_server_def n)
qed

text \<open>
  Claim C6, amended. The file name of an export is
  \<^verbatim>\<open>ebay_bluray_listings_<N>_items.csv\<close> with \<open>N\<close> the number of submitted items, and
  nothing else: two exports have the same file name exactly when they export the same
  number of items.
\<close>

theorem export_name_encodes_count_only:
  "(snd (downloadCSV generate_csv ps) = Some d \<longrightarrow>
      file_name d =
        ''ebay_bluray_listings_'' @ string_of_nat (length (submittedItems ps)) @ ''_items.csv'')
   \<and> ((csv_file_name n = csv_file_name m) = (n = m))
   \<and> (snd (downloadCSV generate_csv ps) = Some d
        \<and> snd (downloadCSV generate_csv' ps') = Some d'
        \<longrightarrow> (file_name d = file_name d')
            = (length (submittedItems ps) = length (submittedItems ps')))"
proof -
  have a: "snd (downloadCSV g p) = Some x \<Longrightarrow> file_name x = csv_file_name (length (submittedItems p))"
    for g p x
    by (auto simp add: downloadCSV_file split: if_splits fetch_result.splits)
  show ?thesis
    using a [of generate_csv ps d] a [of generate_csv' ps' d']
    by (auto simp add: csv_file_name_inj) (simp add: csv_file_name_def)
qed

text \<open>One item and two items give different names; one item twice gives the same.\<close>

theorem export_name_encodes_count_only_witness:
  "snd (downloadCSV example_csv_server (page_run example_session))
     = Some \<lparr> file_name = ''ebay_bluray_listings_1_items.csv'',
              file_content = ''*Action,*Title'' @ [CHR 0x0A] @ ''Add,The Dark Knight'' \<rparr>
   \<and> csv_file_name 1 \<noteq> csv_file_name 2"
proof -
  have n: "csv_file_name (Suc 0) = ''ebay_bluray_listings_1_items.csv''"
    by code_simp
  have f: "snd (downloadCSV example_csv_server (page_run example_session))
     = Some \<lparr> file_name = csv_file_name (Suc 0),
              file_content = ''*Action,*Title'' @ [CHR 0x0A] @ ''Add,The Dark Knight'' \<rparr>"
    by (simp add: downloadCSV_file example_session_items example_csv_server_def
          transformToBluerayItem_def example_valid_form_def init_formData_def example_image_def)
  from export_name_encodes_count_only [of example_csv_server "page_run example_session" _ 1 2]
  have "csv_file_name 1 \<noteq> csv_file_name 2"
    by simp
  with f n show ?thesis
    by simp
qed

section \<open>The condition field\<close>

text \<open>
  Only the condition select writes \<^verbatim>\<open>formData.condition\<close>; no handler does. So the
  condition of a form is always one of the select's option values.
\<close>

lemma form_run_snoc: "form_run img (evs @ [ev]) = form_step (form_run img evs) ev"
  by (simp add: form_run_def)

lemma formData_ClickSubmit: "formData (fst (handleSubmit None fs p)) = formData fs"
  by (simp add: handleSubmit_def Let_def)

lemma condition_form_step:
  "condition (formData (form_step fs ev)) =
     (case ev of
        SelectCondition i \<Rightarrow> choose_option condition_options i (condition (formData fs))
      | _ \<Rightarrow> condition (formData fs))"
  by (cases ev)
     (simp_all add: edit_def fetchMetadata_def fetchPricing_def uploadToAWS_def
        formData_ClickSubmit Let_def
        split: fetch_result.splits option.splits list.splits)

lemma choose_option_member: "cur \<in> set opts \<Longrightarrow> choose_option opts i cur \<in> set opts"
  by (simp add: choose_option_def)

lemma condition_form_run: "condition (formData (form_run img evs)) \<in> set condition_options"
proof (induction evs rule: rev_induct)
  case Nil
  show ?case
    by (simp add: form_run_def init_form_def init_formData_def condition_options_def)
next
  case (snoc ev evs)
  then show ?case
    by (simp add: form_run_snoc condition_form_step choose_option_member
          split: form_event.splits)
qed

text \<open>
  Claim C4 gives the domain \<open>{New, New other, Used, Very Good, Good, Acceptable}\<close>. The
  select offers \<^verbatim>\<open>Like New\<close>, which is outside that domain, and does not offer
  \<^verbatim>\<open>New other\<close>; a record with condition \<^verbatim>\<open>Like New\<close> is accepted and stored.
\<close>

theorem condition_domain_counterexample:
  "map item_condition (submittedItems (page_run example_like_new_session)) = [''Like New'']
   \<and> ''Like New'' \<notin> set claimed_condition_domain
   \<and> ''New other'' \<notin> set condition_options"
proof -
  have "map item_condition (submittedItems (page_run example_like_new_session)) = [''Like New'']"
    by code_simp
  then show ?thesis
    by (simp add: claimed_condition_domain_def condition_options_def)
qed

text \<open>
  Claim C4, amended. Every record's condition is one of the six option values of the
  condition select, \<open>{New, Like New, Very Good, Good, Acceptable, Used}\<close>: in every form,
  in the item built from it (which copies the field), and in every stored record.
\<close>

theorem condition_is_a_select_option:
  "condition (formData (form_run img evs)) \<in> set condition_options
   \<and> item_condition (transformToBluerayItem fd) = condition fd
   \<and> (\<forall>it \<in> set (submittedItems (page_run pevs)). item_condition it \<in> set condition_options)
   \<and> set condition_options
       = {''New'', ''Like New'', ''Very Good'', ''Good'', ''Acceptable'', ''Used''}"
proof -
  have a: "item_condition (transformToBluerayItem x) = condition x" for x
    by (simp add: transformToBluerayItem_def)
  have b: "\<forall>it \<in> set (submittedItems (page_run pevs)). item_condition it \<in> set condition_options"
    by (rule stored_items_invariant) (simp add: a condition_form_run)
  show ?thesis
    using a b by (simp add: condition_form_run) (simp add: condition_options_def)
qed

text \<open>The form and the store after the second option was chosen.\<close>

theorem condition_is_a_select_option_witness:
  "condition (formData (form_run example_image [example_upload, SelectCondition 1])) = ''Like New''
   \<and> ''Like New'' \<in> set condition_options
   \<and> map item_condition (submittedItems (page_run example_like_new_session)) = [''Like New'']"
proof -
  have c: "condition (formData (form_run example_image [example_upload, SelectCondition 1])) = ''Like New''"
    by code_simp
  have s: "map item_condition (submittedItems (page_run example_like_new_session)) = [''Like New'']"
    by code_simp
  from condition_is_a_select_option
         [of example_image "[example_upload, SelectCondition 1]" _ example_like_new_session]
  have "condition (formData (form_run example_image [example_upload, SelectCondition 1]))
          \<in> set condition_options"
    by blast
  with c s show ?thesis
    by simp
qed

subsection \<open>Overriding the default condition\<close>

lemma apply_overrides_unrecognized:
  "(k, v) \<in> set overrides \<Longrightarrow> table k = Some phrases \<Longrightarrow> phrases v = None
   \<Longrightarrow> \<exists>e. apply_overrides table overrides r = Inl e"
proof (induction overrides arbitrary: r)
  case Nil
  then show ?case by simp
next
  case (Cons kv overrides)
  obtain k' v' where kv: "kv = (k', v')"
    by (cases kv)
  show ?case
  proof (cases "(k, v) = (k', v')")
    case True
    with Cons.prems kv show ?thesis
      by simp
  next
    case False
    with Cons.prems(1) kv have "(k, v) \<in> set overrides"
      by auto
    from Cons.IH [OF this Cons.prems(2,3)] kv show ?thesis
      by (simp split: option.splits)
  qed
qed

text \<open>
  Claim C5. With \<^verbatim>\<open>like new\<close> in the coercion table for \<^verbatim>\<open>New other\<close>, resolving
  the override \<open>{condition: "like new"}\<close> with no explicit condition gives a record whose
  condition is \<^verbatim>\<open>New other\<close>, whatever the configured default is. A condition override
  that the table does not hold makes the resolver fail with \<^verbatim>\<open>UnrecognizedOverride\<close>,
  alone or among other overrides: no record is returned, so nothing falls back to the
  default.
\<close>

theorem like_new_override_resolves:
  "(table ''condition'' = Some phrases \<and> phrases ''like new'' = Some ''New other''
      \<and> partial ''condition'' = None \<longrightarrow>
      (\<exists>r. resolve table defaults partial [(''condition'', ''like new'')] = Inr r
           \<and> r ''condition'' = Some ''New other''
           \<and> (defaults ''condition'' \<noteq> Some ''New other'' \<longrightarrow>
                r ''condition'' \<noteq> defaults ''condition'')))
   \<and> (table ''condition'' = Some phrases \<and> phrases v = None \<longrightarrow>
        resolve table defaults partial [(''condition'', v)]
          = Inl (UnrecognizedOverride ''condition'' v))
   \<and> (table ''condition'' = Some phrases \<and> phrases v = None
        \<and> (''condition'', v) \<in> set overrides \<longrightarrow>
        (\<exists>e. resolve table defaults partial overrides = Inl e))"
proof -
  have c: "\<exists>e. resolve table defaults partial overrides = Inl e"
    if "table ''condition'' = Some phrases" "phrases v = None"
       "(''condition'', v) \<in> set overrides"
    using apply_overrides_unrecognized
            [of "''condition''" v overrides table phrases "defaults ++ partial"] that
    by (simp add: resolve_def)
  show ?thesis
    using c by (auto simp add: resolve_def)
qed

text \<open>The table with the entry of the specification and the default \<^verbatim>\<open>Very Good\<close>: the
  phrase \<^verbatim>\<open>like new\<close> resolves to \<^verbatim>\<open>New other\<close>, the value \<^verbatim>\<open>mint\<close> is refused.\<close>

theorem like_new_override_resolves_witness:
  "example_table ''condition'' = Some (map_of [(''like new'', ''New other'')])
   \<and> example_defaults ''condition'' = Some ''Very Good''
   \<and> (case resolve example_table example_defaults Map.empty [(''condition'', ''like new'')] of
         Inl e \<Rightarrow> None | Inr r \<Rightarrow> r ''condition'') = Some ''New other''
   \<and> resolve example_table example_defaults Map.empty [(''condition'', ''mint'')]
       = Inl (UnrecognizedOverride ''condition'' ''mint'')"
proof -
  have t: "example_table ''condition'' = Some (map_of [(''like new'', ''New other'')])"
    by (simp add: example_table_def)
  have p: "map_of [(''like new'', ''New other'')] ''like new'' = Some ''New other''"
    by simp
  have m: "map_of [(''like new'', ''New other'')] ''mint'' = None"
    by simp
  have d: "example_defaults ''condition'' = Some ''Very Good''"
    by (simp add: example_defaults_def)
  from like_new_override_resolves
         [where table = example_table and phrases = "map_of [(''like new'', ''New other'')]"
            and partial = Map.empty and defaults = example_defaults and v = "''mint''"
            and overrides = "[]"]
       t p m
  have "(\<exists>r. resolve example_table example_defaults Map.empty [(''condition'', ''like new'')] = Inr r
           \<and> r ''condition'' = Some ''New other'')
     \<and> resolve example_table example_defaults Map.empty [(''condition'', ''mint'')]
          = Inl (UnrecognizedOverride ''condition'' ''mint'')"
    by blast
  with t d show ?thesis
    by auto
qed

section \<open>Accepted records\<close>

lemma trim_nonempty: "trim s \<noteq> [] \<Longrightarrow> s \<noteq> []"
  by (auto simp add: trim_def)

lemma not_le_zero_gt_zero: "x \<noteq> NaN \<Longrightarrow> \<not> le_zero x \<Longrightarrow> gt_zero x"
  by (cases x) simp_all

text \<open>What \<^verbatim>\<open>parseInt\<close> returns is \<^verbatim>\<open>NaN\<close> or an integer.\<close>

lemma parseInt_str_cases: "parseInt_str s = NaN \<or> (\<exists>k. parseInt_str s = Fin k 0)"
  unfolding parseInt_str_def Let_def by (rule if_split [THEN iffD2]) blast

lemma parseInt_integer: "parseInt v \<noteq> NaN \<Longrightarrow> \<exists>k. parseInt v = Fin k 0"
  using parseInt_str_cases [of "to_string v"] by (simp add: parseInt_def)

text \<open>
  Claim C3 says that a record is accepted only if its title is non-empty, its price is
  greater than 0 and its quantity is a strictly positive integer. The quantity is tested
  by \<^verbatim>\<open>parseInt(formData.quantity) <= 0\<close> alone; nothing tests that it is an integer.
  A quantity of 1.5, typed into the number input of a form with a photo, is accepted, and
  the record is stored with the quantity \<^verbatim>\<open>parseInt\<close> reads, 1.
\<close>

theorem quantity_integer_counterexample:
  "validateForm (formData (form_run example_image
       [example_upload, EditQuantity (Entered 15 (- 1))])) = []
   \<and> quantity (formData (form_run example_image
       [example_upload, EditQuantity (Entered 15 (- 1))])) = JNum (Fin 15 (- 1))
   \<and> \<not> is_integer (Fin 15 (- 1))
   \<and> map (\<lambda>it. cf_quantity (custom_fields it))
        (submittedItems (page_run
           [ImagesUploaded [example_image],
            Submit example_image [example_upload, EditQuantity (Entered 15 (- 1))]]))
       = [Fin 1 0]"
proof -
  have a: "validateForm (formData (form_run example_image
       [example_upload, EditQuantity (Entered 15 (- 1))])) = []"
    by code_simp
  have b: "quantity (formData (form_run example_image
       [example_upload, EditQuantity (Entered 15 (- 1))])) = JNum (Fin 15 (- 1))"
    by code_simp
  have c: "map (\<lambda>it. cf_quantity (custom_fields it))
        (submittedItems (page_run
           [ImagesUploaded [example_image],
            Submit example_image [example_upload, EditQuantity (Entered 15 (- 1))]]))
       = [Fin 1 0]"
    by code_simp
  from a b c show ?thesis
    by simp
qed

text \<open>
  The tests \<^verbatim>\<open>parseFloat(x) <= 0\<close> and \<^verbatim>\<open>parseInt(x) <= 0\<close> are false for \<^verbatim>\<open>NaN\<close>, so
  a field holding a text that is not a number passes them. The two fields are bound to
  number inputs, which deliver numbers; what \<^verbatim>\<open>validateForm\<close> does with such a text is
  left out of the statement below.
\<close>

lemma non_numeric_text_passes_comparison:
  "parseFloat (JStr ''abc'') = NaN \<and> parseInt (JStr ''abc'') = NaN \<and> \<not> le_zero NaN"
  by (simp add: parseFloat_def parseInt_def parseFloat_str_def parseInt_str_def
        unsigned_decimal_def trim_start_def is_ws_def is_digit_def)

text \<open>
  Claim C3, amended. A record whose price and quantity fields read as numbers is accepted
  by validation only if its title is non-empty (it holds a character that is not white
  space), its price is strictly greater than 0, and the integer that \<^verbatim>\<open>parseInt\<close> reads
  at the start of its quantity is strictly greater than 0; that integer, not the field, is
  the quantity of the record built, and the field need not be an integer. Any record with
  a blank title, an empty price or quantity field, a price at most 0 or such an integer at
  most 0 is rejected.
\<close>

theorem accepted_record_has_valid_fields:
  "(validateForm fd = [] \<and> parseFloat (price fd) \<noteq> NaN \<and> parseInt (quantity fd) \<noteq> NaN \<longrightarrow>
      title fd \<noteq> [] \<and> trim (title fd) \<noteq> []
      \<and> gt_zero (parseFloat (price fd))
      \<and> gt_zero (parseInt (quantity fd))
      \<and> item_title (transformToBluerayItem fd) = title fd
      \<and> cf_price (custom_fields (transformToBluerayItem fd)) = parseFloat (price fd)
      \<and> cf_quantity (custom_fields (transformToBluerayItem fd)) = parseInt (quantity fd)
      \<and> (\<exists>k. 0 < k \<and> cf_quantity (custom_fields (transformToBluerayItem fd)) = Fin k 0))
   \<and> (trim (title fd) = [] \<or> \<not> truthy (price fd) \<or> le_zero (parseFloat (price fd))
        \<or> \<not> truthy (quantity fd) \<or> le_zero (parseInt (quantity fd))
        \<longrightarrow> validateForm fd \<noteq> [])"
proof -
  have a: "title fd \<noteq> [] \<and> trim (title fd) \<noteq> []
      \<and> gt_zero (parseFloat (price fd))
      \<and> gt_zero (parseInt (quantity fd))
      \<and> item_title (transformToBluerayItem fd) = title fd
      \<and> cf_price (custom_fields (transformToBluerayItem fd)) = parseFloat (price fd)
      \<and> cf_quantity (custom_fields (transformToBluerayItem fd)) = parseInt (quantity fd)
      \<and> (\<exists>k. 0 < k \<and> cf_quantity (custom_fields (transformToBluerayItem fd)) = Fin k 0)"
    if v: "validateForm fd = []" and p: "parseFloat (price fd) \<noteq> NaN"
      and q: "parseInt (quantity fd) \<noteq> NaN"
  proof -
    from v have t: "trim (title fd) \<noteq> []" and lp: "\<not> le_zero (parseFloat (price fd))"
        and lq: "\<not> le_zero (parseInt (quantity fd))"
      by (simp_all add: validateForm_empty_iff)
    from p lp have gp: "gt_zero (parseFloat (price fd))"
      by (rule not_le_zero_gt_zero)
    from q lq have gq: "gt_zero (parseInt (quantity fd))"
      by (rule not_le_zero_gt_zero)
    from parseInt_integer [OF q] obtain k where k: "parseInt (quantity fd) = Fin k 0"
      by blast
    with gq have "0 < k"
      by simp
    with k t gp gq show ?thesis
      by (simp add: transformToBluerayItem_def trim_nonempty)
  qed
  have b: "validateForm fd \<noteq> []"
    if "trim (title fd) = [] \<or> \<not> truthy (price fd) \<or> le_zero (parseFloat (price fd))
        \<or> \<not> truthy (quantity fd) \<or> le_zero (parseInt (quantity fd))"
    using that by (auto simp add: validateForm_empty_iff)
  from a b show ?thesis
    by blast
qed

text \<open>The scenario of the specification: title \<^verbatim>\<open>The Dark Knight\<close>, price 9.99,
  quantity 1 and one photo; and the same form with quantity 0 and with quantity 1.5.\<close>

theorem accepted_record_has_valid_fields_witness:
  "validateForm (formData example_valid_form) = []
   \<and> parseFloat (price (formData example_valid_form)) = Fin 999 (- 2)
   \<and> parseInt (quantity (formData example_valid_form)) = Fin 1 0
   \<and> item_title (transformToBluerayItem (formData example_valid_form)) = ''The Dark Knight''
   \<and> gt_zero (cf_price (custom_fields (transformToBluerayItem (formData example_valid_form))))
   \<and> cf_quantity (custom_fields (transformToBluerayItem (formData example_valid_form))) = Fin 1 0
   \<and> validateForm ((formData example_valid_form)\<lparr>quantity := JNum (Fin 0 0)\<rparr>) \<noteq> []
   \<and> cf_quantity (custom_fields (transformToBluerayItem
        ((formData example_valid_form)\<lparr>quantity := JNum (Fin 15 (- 1))\<rparr>))) = Fin 1 0"
proof -
  have v: "validateForm (formData example_valid_form) = []"
    by code_simp
  have p: "parseFloat (price (formData example_valid_form)) = Fin 999 (- 2)"
    by code_simp
  have q: "parseInt (quantity (formData example_valid_form)) = Fin 1 0"
    by code_simp
  have t: "title (formData example_valid_form) = ''The Dark Knight''"
    by (simp add: example_valid_form_def init_formData_def example_image_def)
  have z: "le_zero (parseInt (quantity ((formData example_valid_form)\<lparr>quantity := JNum (Fin 0 0)\<rparr>)))"
    by code_simp
  have v': "validateForm ((formData example_valid_form)\<lparr>quantity := JNum (Fin 15 (- 1))\<rparr>) = []"
    by code_simp
  have q': "parseInt (quantity ((formData example_valid_form)\<lparr>quantity := JNum (Fin 15 (- 1))\<rparr>))
              = Fin 1 0"
    by code_simp
  have p': "parseFloat (price ((formData example_valid_form)\<lparr>quantity := JNum (Fin 15 (- 1))\<rparr>))
              = Fin 999 (- 2)"
    by code_simp
  from accepted_record_has_valid_fields [of "formData example_valid_form"] v p q t
  have 1: "item_title (transformToBluerayItem (formData example_valid_form)) = ''The Dark Knight''
     \<and> gt_zero (cf_price (custom_fields (transformToBluerayItem (formData example_valid_form))))
     \<and> cf_quantity (custom_fields (transformToBluerayItem (formData example_valid_form))) = Fin 1 0"
    by simp
  from accepted_record_has_valid_fields
         [of "(formData example_valid_form)\<lparr>quantity := JNum (Fin 0 0)\<rparr>"] z
  have 2: "validateForm ((formData example_valid_form)\<lparr>quantity := JNum (Fin 0 0)\<rparr>) \<noteq> []"
    by blast
  from accepted_record_has_valid_fields
         [of "(formData example_valid_form)\<lparr>quantity := JNum (Fin 15 (- 1))\<rparr>"] v' q' p'
  have 3: "cf_quantity (custom_fields (transformToBluerayItem
        ((formData example_valid_form)\<lparr>quantity := JNum (Fin 15 (- 1))\<rparr>))) = Fin 1 0"
    by simp
  from v p q 1 2 3 show ?thesis
    by simp
qed

end
